theory Spec2Isabelle
  imports Complex_Main "HOL-Library.Monad_Syntax" "HOL-Library.Sublist"
begin

section \<open>Numbers\<close>

text \<open>
  JavaScript numbers are modelled by the reals: rounding and overflow of doubles are not
  modelled. An operation whose IEEE result is not a finite number (NaN or an infinity)
  returns \<open>None\<close>; an absent field (\<open>undefined\<close>) is \<open>None\<close> as well.
\<close>

definition js_div :: "real \<Rightarrow> real \<Rightarrow> real option" where
  "js_div x y = (if y = 0 then None else Some (x / y))"

definition Math_pow :: "real \<Rightarrow> real \<Rightarrow> real option" where
  \<comment> \<open>A zero base with a negative exponent is Infinity, a negative base with an exponent
      that is not an integer is NaN.\<close>
  "Math_pow x y =
     (if y = 0 then Some 1
      else if 0 < x then Some (x powr y)
      else if x = 0 then (if 0 < y then Some 0 else None)
      else if y = of_int \<lfloor>y\<rfloor> then Some (power_int x \<lfloor>y\<rfloor>)
      else None)"

definition Math_round :: "real \<Rightarrow> real" where
  \<comment> \<open>Math.round rounds to the nearest integer, a half towards plus infinity.\<close>
  "Math_round x = of_int \<lfloor>x + 1 / 2\<rfloor>"

definition or_default :: "real option \<Rightarrow> real \<Rightarrow> real" where
  \<comment> \<open>\<open>field || d\<close> on a number: \<open>undefined\<close> and 0 are falsy.\<close>
  "or_default field d = (case field of None \<Rightarrow> d | Some x \<Rightarrow> if x = 0 then d else x)"

section \<open>Planet records\<close>

text \<open>
  The fields of a catalog record that the modelled functions read. \<open>ident\<close> is the
  source's \<open>id\<close> and \<open>ptype\<close> its \<open>type\<close>; the remaining fields (star, class, texture,
  mass, discoveryYear, mission, status, confidence, inHabitableZone) are only displayed.
\<close>

record orbit =
  period :: "real option"
  semiMajorAxis :: "real option"

record planet =
  ident :: string
  name :: string
  system :: string
  ptype :: string
  radius :: real
  ellipticalOrbit :: "orbit option"

definition orbit_period :: "planet \<Rightarrow> real option" where
  \<comment> \<open>\<open>planet.ellipticalOrbit?.period\<close>\<close>
  "orbit_period p = (case ellipticalOrbit p of None \<Rightarrow> None | Some ob \<Rightarrow> period ob)"

definition orbit_semiMajorAxis :: "planet \<Rightarrow> real option" where
  \<comment> \<open>\<open>planet.ellipticalOrbit?.semiMajorAxis\<close>\<close>
  "orbit_semiMajorAxis p =
     (case ellipticalOrbit p of None \<Rightarrow> None | Some ob \<Rightarrow> semiMajorAxis ob)"

definition canonical :: "planet \<Rightarrow> bool" where
  \<comment> \<open>The invariant of a canonical record: a positive radius, an orbit with a positive
      period and a semi-major axis that is not negative.\<close>
  "canonical p =
     (0 < radius p \<and>
      (case orbit_period p of None \<Rightarrow> False | Some d \<Rightarrow> 0 < d) \<and>
      (case orbit_semiMajorAxis p of None \<Rightarrow> False | Some a \<Rightarrow> 0 \<le> a))"

section \<open>Habitability metrics (category dual viewer)\<close>

definition calculateMockTemperature :: "planet \<Rightarrow> real option" where
  "calculateMockTemperature p =
     (if name p = ''Earth'' then Some 288
      else if name p = ''Jupiter'' then Some 165
      else
        (let semiMajorAxis = or_default (orbit_semiMajorAxis p) 1.0 in
         do {
           pw \<leftarrow> Math_pow semiMajorAxis (- 0.5);
           let temp = 288 * pw;
           Some (Math_round temp)
         }))"

definition axisScore :: "real \<Rightarrow> real \<Rightarrow> real option" where
  \<comment> \<open>The expression \<open>1 - Math.abs((x - c) / (x + c))\<close> of the three scores.\<close>
  "axisScore x c = do { q \<leftarrow> js_div (x - c) (x + c); Some (1 - \<bar>q\<bar>) }"

definition calculateMockESI :: "planet \<Rightarrow> real option" where
  "calculateMockESI p =
     (if name p = ''Earth'' then Some 1.0
      else if name p = ''Jupiter'' then Some 0.15
      else
        (let earthRadius = 6371;
             radiusRatio = radius p / earthRadius;
             semiMajorAxis = or_default (orbit_semiMajorAxis p) 1.0;
             period = or_default (orbit_period p) 365
         in do {
           radiusScore \<leftarrow> axisScore radiusRatio 1;
           distanceScore \<leftarrow> axisScore semiMajorAxis 1;
           periodScore \<leftarrow> axisScore period 365.25;
           esi \<leftarrow> Math_pow (radiusScore * distanceScore * periodScore) (1 / 3);
           Some (max 0 (min 1 esi))
         }))"

text \<open>
  The index as the specification words it: the cube root of the product of the three
  scores, taken on the record's own radius, semi-major axis and period, clamped.
\<close>

definition esi_formula :: "real \<Rightarrow> real \<Rightarrow> real \<Rightarrow> real" where
  "esi_formula radiusKm a p =
     max 0 (min 1 (root 3
       ((1 - \<bar>(radiusKm / 6371 - 1) / (radiusKm / 6371 + 1)\<bar>) *
        (1 - \<bar>(a - 1) / (a + 1)\<bar>) *
        (1 - \<bar>(p - 365.25) / (p + 365.25)\<bar>))))"

section \<open>Rotation per frame\<close>

definition radiansPerFrame :: "real \<Rightarrow> real" where
  "radiansPerFrame orbitalPeriodDays =
     (let timeAccelerationBase = 3600;
          radiansPerEarthDay = (2 * pi) / orbitalPeriodDays;
          framesPerSecond = 60;
          secondsPerDay = 86400
      in (radiansPerEarthDay / secondsPerDay) * (timeAccelerationBase / framesPerSecond))"

definition finalRotationSpeed :: "real \<Rightarrow> real \<Rightarrow> real" where
  "finalRotationSpeed orbitalPeriodDays autoRotateMultiplier =
     radiansPerFrame orbitalPeriodDays * autoRotateMultiplier"

definition rotationStep :: "planet \<Rightarrow> bool \<Rightarrow> real" where
  \<comment> \<open>What one frame of \<open>animate\<close> adds to \<open>planetMesh.rotation.y\<close>.\<close>
  "rotationStep currentPlanet autoRotate =
     (let orbitalPeriodDays = or_default (orbit_period currentPlanet) 365;
          autoRotateMultiplier = (if autoRotate then 100 else 1)
      in finalRotationSpeed orbitalPeriodDays autoRotateMultiplier)"

section \<open>Viewers\<close>

text \<open>
  A viewer of the dual page: its selection and its rotation flag. The scene, camera, mesh
  and DOM handles belong to the rendering layer and are left out.
\<close>

record viewer =
  currentPlanetIndex :: int
  currentPlanet :: "planet option"
  autoRotate :: bool

text \<open>The viewer of the category page has a candidate list of its own.\<close>

record category_viewer = viewer +
  availablePlanets :: "planet list"

record 'v session =
  leftViewer :: 'v
  rightViewer :: 'v

definition syncRotation :: "('a viewer_scheme) session \<Rightarrow> ('a viewer_scheme) session" where
  "syncRotation s =
     (let newState = (\<not> autoRotate (leftViewer s))
      in s\<lparr>leftViewer := (leftViewer s)\<lparr>autoRotate := newState\<rparr>,
           rightViewer := (rightViewer s)\<lparr>autoRotate := newState\<rparr>\<rparr>)"

section \<open>Category dual viewer\<close>

text \<open>The datasets that \<open>loadPlanetData\<close> of the category page fills.\<close>

record globals =
  solarSystemPlanets :: "planet list"
  exoplanets :: "planet list"
  planets :: "planet list"

definition getPlanetsForCategory :: "globals \<Rightarrow> string \<Rightarrow> planet list" where
  "getPlanetsForCategory g category =
     (if category = ''earth'' then filter (\<lambda>p. name p = ''Earth'') (solarSystemPlanets g)
      else if category = ''jupiter'' then filter (\<lambda>p. name p = ''Jupiter'') (solarSystemPlanets g)
      else exoplanets g)"

definition showPlanet :: "category_viewer \<Rightarrow> int \<Rightarrow> category_viewer" where
  "showPlanet viewer index =
     (if index < 0 \<or> index \<ge> int (length (availablePlanets viewer)) then viewer
      else viewer\<lparr>currentPlanetIndex := index,
                  currentPlanet := Some (availablePlanets viewer ! nat index)\<rparr>)"

definition searchInputDisplay :: "string \<Rightarrow> bool" where
  \<comment> \<open>Whether \<open>changePlanetCategory\<close> leaves the search element of the viewer displayed
      (\<open>block\<close>) or hides it (\<open>none\<close>).\<close>
  "searchInputDisplay category = (category = ''exoplanets'')"

definition changePlanetCategory :: "globals \<Rightarrow> category_viewer \<Rightarrow> string \<Rightarrow> category_viewer" where
  "changePlanetCategory g viewer category =
     (let categoryPlanets = getPlanetsForCategory g category;
          viewer = viewer\<lparr>availablePlanets := categoryPlanets, currentPlanetIndex := 0\<rparr>
      in if length categoryPlanets > 0 then showPlanet viewer 0 else viewer)"

definition nextPlanet :: "category_viewer \<Rightarrow> category_viewer" where
  "nextPlanet viewer =
     (if currentPlanetIndex viewer < int (length (availablePlanets viewer)) - 1
      then showPlanet viewer (currentPlanetIndex viewer + 1) else viewer)"

definition previousPlanet :: "category_viewer \<Rightarrow> category_viewer" where
  "previousPlanet viewer =
     (if currentPlanetIndex viewer > 0
      then showPlanet viewer (currentPlanetIndex viewer - 1) else viewer)"

definition toggleAutoRotate :: "category_viewer \<Rightarrow> category_viewer" where
  "toggleAutoRotate viewer = viewer\<lparr>autoRotate := \<not> autoRotate viewer\<rparr>"

definition searchSelectChange :: "category_viewer \<Rightarrow> int option \<Rightarrow> category_viewer" where
  \<comment> \<open>The change listener of the search dropdown. Each option holds the index of its
      record in the global \<open>planets\<close>; the argument is \<open>parseInt\<close> of the chosen option's
      value, \<open>None\<close> for NaN.\<close>
  "searchSelectChange viewer selectedIndex =
     (case selectedIndex of None \<Rightarrow> viewer | Some i \<Rightarrow> showPlanet viewer i)"

text \<open>The two viewer objects as the page declares them.\<close>

definition leftViewer0 :: category_viewer where
  "leftViewer0 =
     \<lparr>currentPlanetIndex = 0, currentPlanet = None, autoRotate = True, availablePlanets = []\<rparr>"

definition rightViewer0 :: category_viewer where
  "rightViewer0 =
     \<lparr>currentPlanetIndex = 1, currentPlanet = None, autoRotate = True, availablePlanets = []\<rparr>"

definition init :: "globals \<Rightarrow> category_viewer session" where
  \<comment> \<open>The session when \<open>init\<close> returns: the candidate lists are assigned, the first
      category change is scheduled 100 ms later.\<close>
  "init g =
     \<lparr>leftViewer = leftViewer0\<lparr>availablePlanets := getPlanetsForCategory g ''earth''\<rparr>,
      rightViewer = rightViewer0\<lparr>availablePlanets := getPlanetsForCategory g ''jupiter''\<rparr>\<rparr>"

definition init_timeout :: "globals \<Rightarrow> category_viewer session \<Rightarrow> category_viewer session" where
  \<comment> \<open>The callback that \<open>init\<close> schedules.\<close>
  "init_timeout g s =
     \<lparr>leftViewer = changePlanetCategory g (leftViewer s) ''earth'',
      rightViewer = changePlanetCategory g (rightViewer s) ''jupiter''\<rparr>"

text \<open>
  The listeners of \<open>setupEventListeners\<close> that change a viewer; a key press acts as the
  click on the focused side.
\<close>

datatype side = Left | Right

datatype page_event =
    PrevClick side
  | NextClick side
  | AutoRotateClick side
  | CategoryChange side string
  | SearchChange side "int option"
  | SyncRotationClick

definition on_side ::
  "side \<Rightarrow> (category_viewer \<Rightarrow> category_viewer) \<Rightarrow> category_viewer session \<Rightarrow> category_viewer session"
where
  "on_side sd f s =
     (case sd of Left \<Rightarrow> s\<lparr>leftViewer := f (leftViewer s)\<rparr>
               | Right \<Rightarrow> s\<lparr>rightViewer := f (rightViewer s)\<rparr>)"

fun handle_event :: "globals \<Rightarrow> category_viewer session \<Rightarrow> page_event \<Rightarrow> category_viewer session" where
  "handle_event g s (PrevClick sd) = on_side sd previousPlanet s"
| "handle_event g s (NextClick sd) = on_side sd nextPlanet s"
| "handle_event g s (AutoRotateClick sd) = on_side sd toggleAutoRotate s"
| "handle_event g s (CategoryChange sd c) = on_side sd (\<lambda>v. changePlanetCategory g v c) s"
| "handle_event g s (SearchChange sd i) = on_side sd (\<lambda>v. searchSelectChange v i) s"
| "handle_event g s SyncRotationClick = syncRotation s"

definition index_in_range :: "category_viewer \<Rightarrow> bool" where
  "index_in_range v =
     (availablePlanets v \<noteq> [] \<longrightarrow>
        0 \<le> currentPlanetIndex v \<and> currentPlanetIndex v < int (length (availablePlanets v)))"

definition session_in_range :: "category_viewer session \<Rightarrow> bool" where
  "session_in_range s = (index_in_range (leftViewer s) \<and> index_in_range (rightViewer s))"

section \<open>Text search of the dual viewer\<close>

text \<open>
  The earlier dual page has no candidate list: \<open>showPlanet\<close> there indexes the global
  \<open>planets\<close>. \<open>indexOf\<close> compares records by value; the position of a record found by
  \<open>filter\<close> or \<open>find\<close> is the same under either comparison.

  \<open>String.prototype.toLowerCase\<close> belongs to the language, not to the repository: the
  listeners take it as their argument \<open>lower\<close>, and what is proved of them holds for
  every such function. \<open>toLowerCase\<close> below is that function on the strings whose
  characters are the code units below 256 (Latin-1): there the capital letters are
  U+0041 to U+005A and U+00C0 to U+00DE without the multiplication sign U+00D7, and
  the small letter of each lies 32 above it.
\<close>

definition showPlanet_catalog :: "planet list \<Rightarrow> viewer \<Rightarrow> int \<Rightarrow> viewer" where
  \<comment> \<open>\<open>ps\<close> is the global \<open>planets\<close> of that page.\<close>
  "showPlanet_catalog ps viewer index =
     (if index < 0 \<or> index \<ge> int (length ps) then viewer
      else viewer\<lparr>currentPlanetIndex := index, currentPlanet := Some (ps ! nat index)\<rparr>)"

definition lower_char :: "char \<Rightarrow> char" where
  "lower_char c =
     (let n = (of_char c :: nat) in
      if (65 \<le> n \<and> n \<le> 90) \<or> (192 \<le> n \<and> n \<le> 222 \<and> n \<noteq> 215) then char_of (n + 32)
      else c)"

definition toLowerCase :: "string \<Rightarrow> string" where
  "toLowerCase s = map lower_char s"

fun str_includes :: "string \<Rightarrow> string \<Rightarrow> bool" where
  "str_includes [] q = (q = [])"
| "str_includes (c # s) q = (prefix q (c # s) \<or> str_includes s q)"

fun indexOf :: "'a list \<Rightarrow> 'a \<Rightarrow> int" where
  "indexOf [] x = - 1"
| "indexOf (y # ys) x =
     (if y = x then 0 else (let i = indexOf ys x in if i < 0 then - 1 else i + 1))"

definition matchesInput :: "(string \<Rightarrow> string) \<Rightarrow> string \<Rightarrow> planet \<Rightarrow> bool" where
  "matchesInput lower query planet =
     (str_includes (lower (name planet)) query \<or>
      str_includes (lower (ident planet)) query \<or>
      str_includes (lower (system planet)) query)"

definition matchesEnter :: "(string \<Rightarrow> string) \<Rightarrow> string \<Rightarrow> planet \<Rightarrow> bool" where
  "matchesEnter lower query planet =
     (str_includes (lower (name planet)) query \<or>
      str_includes (lower (ident planet)) query)"

definition searchInput ::
  "(string \<Rightarrow> string) \<Rightarrow> planet list \<Rightarrow> viewer \<Rightarrow> string \<Rightarrow> viewer"
where
  \<comment> \<open>The \<open>input\<close> listener, on the text of the search field.\<close>
  "searchInput lower ps viewer val =
     (let query = lower val in
      if query = [] then viewer
      else
        (let matches = filter (matchesInput lower query) ps in
         if length matches = 1
         then (let index = indexOf ps (matches ! 0) in showPlanet_catalog ps viewer index)
         else viewer))"

definition searchEnter ::
  "(string \<Rightarrow> string) \<Rightarrow> planet list \<Rightarrow> viewer \<Rightarrow> string \<Rightarrow> viewer"
where
  \<comment> \<open>The \<open>keypress\<close> listener when the key is Enter.\<close>
  "searchEnter lower ps viewer val =
     (let query = lower val in
      case find (matchesEnter lower query) ps of
        None \<Rightarrow> viewer
      | Some match \<Rightarrow>
          (let index = indexOf ps match in showPlanet_catalog ps viewer index))"

section \<open>Catalog loaders\<close>

text \<open>
  A source is \<open>None\<close> when its \<open>fetch\<close> or its \<open>json()\<close> throws, and the parsed list
  otherwise. The third source has the legacy record shape.
\<close>

record legacy_planet =
  legacy_name :: string
  legacy_system :: string
  legacy_type :: string
  orbitalPeriod :: "real option"

fun decimal :: "nat \<Rightarrow> string" where
  "decimal n =
     (if n < 10 then [char_of (48 + n)] else decimal (n div 10) @ [char_of (48 + n mod 10)])"

declare decimal.simps [simp del]

definition convert_legacy :: "legacy_planet \<Rightarrow> nat \<Rightarrow> planet" where
  "convert_legacy planet index =
     \<lparr>ident = ''FALLBACK_'' @ decimal index,
      name = legacy_name planet,
      system = legacy_system planet,
      ptype = legacy_type planet,
      radius = (if legacy_type planet = ''Gas Giant'' then 71492
                else if legacy_type planet = ''Hot Jupiter'' then 47898
                else if legacy_type planet = ''Super-Earth'' then 8967 else 6371),
      ellipticalOrbit =
        Some \<lparr>period = Some (or_default (orbitalPeriod planet) 365), semiMajorAxis = Some 1.0\<rparr>\<rparr>"

definition examplePlanet :: planet where
  "examplePlanet =
     \<lparr>ident = ''EXAMPLE_01'', name = ''Example Planet'', system = ''Unknown System'',
      ptype = ''Rocky'', radius = 6371,
      ellipticalOrbit = Some \<lparr>period = Some 365.25, semiMajorAxis = Some 1.0\<rparr>\<rparr>"

definition loadPlanetData_single ::
  "planet list option \<Rightarrow> planet list option \<Rightarrow> legacy_planet list option \<Rightarrow> planet list"
where
  \<comment> \<open>The loader of the single viewer and of the paginated browser.\<close>
  "loadPlanetData_single koiData keplerData exoplanetData =
     (case koiData of Some ps \<Rightarrow> ps
      | None \<Rightarrow>
        (case keplerData of Some ps \<Rightarrow> ps
         | None \<Rightarrow>
           (case exoplanetData of
              Some fallbackData \<Rightarrow>
                map (\<lambda>(planet, index). convert_legacy planet index)
                  (zip fallbackData [0 ..< length fallbackData])
            | None \<Rightarrow> [examplePlanet])))"

definition loadPlanetData_dual ::
  "planet list option \<Rightarrow> planet list option \<Rightarrow> legacy_planet list option \<Rightarrow> planet list"
where
  \<comment> \<open>The loader of the earlier dual viewer.\<close>
  "loadPlanetData_dual koiData keplerData exoplanetData =
     (case koiData of Some ps \<Rightarrow> ps
      | None \<Rightarrow>
        (case keplerData of Some ps \<Rightarrow> ps
         | None \<Rightarrow>
           (case exoplanetData of
              Some fallbackData \<Rightarrow>
                map (\<lambda>(planet, index). convert_legacy planet index)
                  (zip fallbackData [0 ..< length fallbackData])
            | None \<Rightarrow> [])))"

definition loadPlanetData :: "planet list option \<Rightarrow> planet list option \<Rightarrow> globals" where
  \<comment> \<open>The loader of the category dual viewer: one \<open>try\<close> around both fetches.\<close>
  "loadPlanetData solarSystemData koiData =
     (case solarSystemData of
        None \<Rightarrow> \<lparr>solarSystemPlanets = [], exoplanets = [], planets = []\<rparr>
      | Some solar \<Rightarrow>
        (case koiData of
           None \<Rightarrow> \<lparr>solarSystemPlanets = [], exoplanets = [], planets = []\<rparr>
         | Some exo \<Rightarrow> \<lparr>solarSystemPlanets = solar, exoplanets = exo, planets = exo\<rparr>))"

section \<open>Paginated catalog browser\<close>

text \<open>The pagination variables; \<open>catalog\<close> is the global \<open>planets\<close> of that page.\<close>

record browser =
  catalog :: "planet list"
  currentPage :: int
  planetsPerPage :: int
  filteredPlanets :: "planet list"
  currentFilter :: string

definition populatePlanetSelect :: "planet list \<Rightarrow> browser" where
  \<comment> \<open>The pagination variables as declared, after \<open>filteredPlanets = [...planets]\<close>.\<close>
  "populatePlanetSelect ps =
     \<lparr>catalog = ps, currentPage = 0, planetsPerPage = 100, filteredPlanets = ps,
      currentFilter = ''all''\<rparr>"

definition maxPages :: "browser \<Rightarrow> int" where
  \<comment> \<open>\<open>Math.ceil(filteredPlanets.length / planetsPerPage)\<close>, for a page size that is not 0.\<close>
  "maxPages b = \<lceil>real (length (filteredPlanets b)) / real_of_int (planetsPerPage b)\<rceil>"

definition prevPageClick :: "browser \<Rightarrow> browser" where
  "prevPageClick b = (if currentPage b > 0 then b\<lparr>currentPage := currentPage b - 1\<rparr> else b)"

definition nextPageClick :: "browser \<Rightarrow> browser" where
  \<comment> \<open>With a page size of 0 the quotient is Infinity for a list that is not empty, and
      NaN, which compares false, for an empty one.\<close>
  "nextPageClick b =
     (if planetsPerPage b = 0
      then (if filteredPlanets b \<noteq> [] then b\<lparr>currentPage := currentPage b + 1\<rparr> else b)
      else if currentPage b < maxPages b - 1 then b\<lparr>currentPage := currentPage b + 1\<rparr>
      else b)"

definition applyFilter :: "browser \<Rightarrow> browser" where
  "applyFilter b =
     (if currentFilter b = ''all'' then b\<lparr>filteredPlanets := catalog b\<rparr>
      else b\<lparr>filteredPlanets := filter (\<lambda>planet. ptype planet = currentFilter b) (catalog b)\<rparr>)"

definition typeFilterChange :: "browser \<Rightarrow> string \<Rightarrow> browser" where
  "typeFilterChange b val = applyFilter (b\<lparr>currentFilter := val, currentPage := 0\<rparr>)"

definition planetsPerPageChange :: "browser \<Rightarrow> int \<Rightarrow> browser" where
  \<comment> \<open>The argument is \<open>parseInt\<close> of the chosen option: 50, 100 or 200.\<close>
  "planetsPerPageChange b n = b\<lparr>planetsPerPage := n, currentPage := 0\<rparr>"

datatype browser_event = PrevPage | NextPage | TypeFilter string | PerPage int

fun browser_step :: "browser \<Rightarrow> browser_event \<Rightarrow> browser" where
  "browser_step b PrevPage = prevPageClick b"
| "browser_step b NextPage = nextPageClick b"
| "browser_step b (TypeFilter val) = typeFilterChange b val"
| "browser_step b (PerPage n) = planetsPerPageChange b n"

definition page_in_range :: "browser \<Rightarrow> bool" where
  "page_in_range b =
     (if filteredPlanets b = [] then currentPage b = 0
      else 0 \<le> currentPage b \<and> currentPage b \<le> maxPages b - 1)"

fun offered_size :: "browser_event \<Rightarrow> bool" where
  "offered_size (PerPage n) = (n = 50 \<or> n = 100 \<or> n = 200)"
| "offered_size _ = True"

section \<open>Example records\<close>

text \<open>
  Concrete catalogs and states for the instances below. \<open>second_viewer\<close> is the right
  viewer of the earlier dual page once \<open>init\<close> has shown it the second of two records,
  \<open>unset_viewer\<close> that viewer as declared, which \<open>init\<close> leaves alone when the catalog
  has a single record.
\<close>

definition zero_axis_planet :: planet where
  "zero_axis_planet =
     \<lparr>ident = ''K00001.01'', name = ''KOI-1.01'', system = ''KOI-1'', ptype = ''Terrestrial'',
      radius = 6371,
      ellipticalOrbit = Some \<lparr>period = Some 365.25, semiMajorAxis = Some 0\<rparr>\<rparr>"

definition far_planet :: planet where
  "far_planet =
     \<lparr>ident = ''K00002.01'', name = ''KOI-2.01'', system = ''KOI-2'', ptype = ''Gas Giant'',
      radius = 6371,
      ellipticalOrbit = Some \<lparr>period = Some 365.25, semiMajorAxis = Some 25\<rparr>\<rparr>"

definition twin_planet :: planet where
  "twin_planet =
     \<lparr>ident = ''K00003.01'', name = ''KOI-3.01'', system = ''KOI-3'', ptype = ''Terrestrial'',
      radius = 6371,
      ellipticalOrbit = Some \<lparr>period = Some 365.25, semiMajorAxis = Some 1\<rparr>\<rparr>"

definition earth_record :: planet where
  "earth_record =
     \<lparr>ident = ''SOL-3'', name = ''Earth'', system = ''Solar System'', ptype = ''Terrestrial'',
      radius = 6371,
      ellipticalOrbit = Some \<lparr>period = Some 365.25, semiMajorAxis = Some 1\<rparr>\<rparr>"

definition jupiter_record :: planet where
  "jupiter_record =
     \<lparr>ident = ''SOL-5'', name = ''Jupiter'', system = ''Solar System'', ptype = ''Gas Giant'',
      radius = 71492,
      ellipticalOrbit = Some \<lparr>period = Some 4333, semiMajorAxis = Some 5.2\<rparr>\<rparr>"

definition example_globals :: globals where
  "example_globals =
     \<lparr>solarSystemPlanets = [earth_record, jupiter_record],
      exoplanets = [twin_planet, far_planet],
      planets = [twin_planet, far_planet]\<rparr>"

definition exo_viewer :: category_viewer where
  "exo_viewer = changePlanetCategory example_globals leftViewer0 ''exoplanets''"

definition seven_viewer :: category_viewer where
  "seven_viewer =
     \<lparr>currentPlanetIndex = 7, currentPlanet = Some far_planet, autoRotate = False,
      availablePlanets = replicate 10 far_planet\<rparr>"

definition empty_globals :: globals where
  "empty_globals = \<lparr>solarSystemPlanets = [], exoplanets = [], planets = []\<rparr>"

definition jupiter_viewer :: category_viewer where
  "jupiter_viewer = changePlanetCategory example_globals leftViewer0 ''jupiter''"

definition mixed_session :: "category_viewer session" where
  "mixed_session = \<lparr>leftViewer = leftViewer0, rightViewer = toggleAutoRotate rightViewer0\<rparr>"

definition two_planets :: "planet list" where
  "two_planets = [twin_planet, far_planet]"

definition small_twin_planet :: planet where
  "small_twin_planet =
     \<lparr>ident = ''k00003.01'', name = ''koi-3.01'', system = ''koi-3'', ptype = ''Terrestrial'',
      radius = 6371,
      ellipticalOrbit = Some \<lparr>period = Some 365.25, semiMajorAxis = Some 1\<rparr>\<rparr>"

definition epsilon_planet :: planet where
  \<comment> \<open>The name begins with U+00C9, the capital E with acute.\<close>
  "epsilon_planet =
     \<lparr>ident = ''HD-22049-B'', name = CHR 0xC9 # ''PSILON'', system = ''HD-22049'',
      ptype = ''Gas Giant'', radius = 71492,
      ellipticalOrbit = Some \<lparr>period = Some 2692, semiMajorAxis = Some 3.5\<rparr>\<rparr>"

definition accent_planets :: "planet list" where
  "accent_planets = [twin_planet, epsilon_planet]"

definition second_viewer :: viewer where
  "second_viewer = \<lparr>currentPlanetIndex = 1, currentPlanet = Some far_planet, autoRotate = True\<rparr>"

definition unset_viewer :: viewer where
  "unset_viewer = \<lparr>currentPlanetIndex = 1, currentPlanet = None, autoRotate = True\<rparr>"

definition last_page_browser :: browser where
  "last_page_browser =
     \<lparr>catalog = replicate 25 far_planet, currentPage = 2, planetsPerPage = 10,
      filteredPlanets = replicate 25 far_planet, currentFilter = ''all''\<rparr>"

section \<open>Properties of the habitability metrics\<close>

lemma axisScore_pos:
  assumes "0 < x" "0 < c"
  shows "axisScore x c = Some (1 - \<bar>(x - c) / (x + c)\<bar>)"
    and "0 < 1 - \<bar>(x - c) / (x + c)\<bar>" and "1 - \<bar>(x - c) / (x + c)\<bar> \<le> 1"
proof -
  from assms have s: "0 < x + c" by simp
  then show "axisScore x c = Some (1 - \<bar>(x - c) / (x + c)\<bar>)"
    by (simp add: axisScore_def js_div_def)
  have "\<bar>x - c\<bar> < x + c" using assms by (simp add: abs_less_iff)
  then have "\<bar>(x - c) / (x + c)\<bar> < 1" using s by simp
  then show "0 < 1 - \<bar>(x - c) / (x + c)\<bar>" by simp
  show "1 - \<bar>(x - c) / (x + c)\<bar> \<le> 1" by simp
qed

lemma Math_pow_third:
  assumes "0 < x"
  shows "Math_pow x (1 / 3) = Some (root 3 x)"
  using assms by (simp add: Math_pow_def root_powr_inverse)

lemma calculateMockESI_canonical:
  assumes c: "canonical p" and n: "name p \<noteq> ''Earth''" "name p \<noteq> ''Jupiter''"
    and a: "orbit_semiMajorAxis p = Some a" and d: "orbit_period p = Some d"
  shows "calculateMockESI p = Some (esi_formula (radius p) (if a = 0 then 1 else a) d)"
proof -
  define a' where "a' = (if a = 0 then 1 else a)"
  define rr where "rr = radius p / 6371"
  from c a d have pos: "0 < radius p" "0 < d" "0 \<le> a" by (simp_all add: canonical_def)
  then have rr: "0 < rr" and a': "0 < a'" by (simp_all add: rr_def a'_def)
  define rs where "rs = 1 - \<bar>(rr - 1) / (rr + 1)\<bar>"
  define ds where "ds = 1 - \<bar>(a' - 1) / (a' + 1)\<bar>"
  define ps where "ps = 1 - \<bar>(d - 365.25) / (d + 365.25)\<bar>"
  have s1: "axisScore rr 1 = Some rs" "0 < rs" "rs \<le> 1"
    using axisScore_pos[of rr 1] rr by (simp_all add: rs_def)
  have s2: "axisScore a' 1 = Some ds" "0 < ds" "ds \<le> 1"
    using axisScore_pos[of a' 1] a' by (simp_all add: ds_def)
  have s3: "axisScore d 365.25 = Some ps" "0 < ps" "ps \<le> 1"
    using axisScore_pos[of d "365.25"] pos by (simp_all add: ps_def)
  have prod: "0 < rs * ds * ps" using s1 s2 s3 by simp
  have "rs * ds \<le> 1" using s1 s2 by (simp add: mult_le_one)
  then have prod1: "rs * ds * ps \<le> 1" using s1 s2 s3 by (simp add: mult_le_one)
  have od: "or_default (orbit_semiMajorAxis p) 1 = a'" "or_default (orbit_period p) 365 = d"
    using a d pos by (simp_all add: or_default_def a'_def)
  have "calculateMockESI p = Some (max 0 (min 1 (root 3 (rs * ds * ps))))"
    using n od s1 s2 s3 Math_pow_third[OF prod]
    by (simp add: calculateMockESI_def Let_def rr_def)
  then show ?thesis
    by (simp add: esi_formula_def rs_def ds_def ps_def rr_def a'_def)
qed

lemma calculateMockESI_range:
  assumes "calculateMockESI p = Some e"
  shows "0 \<le> e \<and> e \<le> 1"
  using assms
  by (auto simp: calculateMockESI_def Let_def split: if_splits Option.bind_splits)

text \<open>
  C1, as amended. A record named Earth scores 1 and a record named Jupiter 0.15. For
  any other canonical record the score is the clamped cube root of the product of the
  three axis scores, where a semi-major axis of 0 is replaced by 1 first (the source reads
  the field with \<open>|| 1.0\<close>). Every canonical or reference record has a score, and a score
  is never outside \<open>[0, 1]\<close>.
\<close>

theorem C1_earthSimilarityIndex:
  "(name p = ''Earth'' \<longrightarrow> calculateMockESI p = Some 1) \<and>
   (name p = ''Jupiter'' \<longrightarrow> calculateMockESI p = Some 0.15) \<and>
   (canonical p \<and> name p \<noteq> ''Earth'' \<and> name p \<noteq> ''Jupiter'' \<longrightarrow>
      (\<exists>a d. orbit_semiMajorAxis p = Some a \<and> orbit_period p = Some d \<and>
         calculateMockESI p = Some (esi_formula (radius p) (if a = 0 then 1 else a) d))) \<and>
   (canonical p \<or> name p = ''Earth'' \<or> name p = ''Jupiter'' \<longrightarrow>
      (\<exists>e. calculateMockESI p = Some e)) \<and>
   (\<forall>e. calculateMockESI p = Some e \<longrightarrow> 0 \<le> e \<and> e \<le> 1)"
proof (intro conjI impI allI)
  show "calculateMockESI p = Some 1" if "name p = ''Earth''"
    using that by (simp add: calculateMockESI_def)
  show "calculateMockESI p = Some 0.15" if "name p = ''Jupiter''"
    using that by (simp add: calculateMockESI_def)
  have ex: "\<exists>a d. orbit_semiMajorAxis p = Some a \<and> orbit_period p = Some d" if "canonical p"
    using that by (auto simp: canonical_def split: option.splits)
  show "\<exists>a d. orbit_semiMajorAxis p = Some a \<and> orbit_period p = Some d \<and>
         calculateMockESI p = Some (esi_formula (radius p) (if a = 0 then 1 else a) d)"
    if "canonical p \<and> name p \<noteq> ''Earth'' \<and> name p \<noteq> ''Jupiter''"
    using that ex calculateMockESI_canonical[of p] by blast
  show "\<exists>e. calculateMockESI p = Some e"
    if h: "canonical p \<or> name p = ''Earth'' \<or> name p = ''Jupiter''"
  proof (cases "name p = ''Earth'' \<or> name p = ''Jupiter''")
    case True
    then have "calculateMockESI p = Some 1 \<or> calculateMockESI p = Some 0.15"
      by (auto simp: calculateMockESI_def)
    then show ?thesis by blast
  next
    case False
    with h have "canonical p" by blast
    with False ex calculateMockESI_canonical[of p] show ?thesis by blast
  qed
  show "0 \<le> e" "e \<le> 1" if "calculateMockESI p = Some e" for e
    using calculateMockESI_range[OF that] by simp_all
qed

text \<open>
  C1 as stated fails on a canonical record whose semi-major axis is 0: the formula on the
  record's own fields gives 0, the function returns 1.
\<close>

theorem C1_zero_axis_counterexample:
  "canonical zero_axis_planet \<and>
   name zero_axis_planet \<noteq> ''Earth'' \<and> name zero_axis_planet \<noteq> ''Jupiter'' \<and>
   orbit_semiMajorAxis zero_axis_planet = Some 0 \<and>
   orbit_period zero_axis_planet = Some 365.25 \<and>
   calculateMockESI zero_axis_planet = Some 1 \<and>
   esi_formula (radius zero_axis_planet) 0 365.25 = 0"
  by (simp add: zero_axis_planet_def canonical_def orbit_period_def orbit_semiMajorAxis_def
      calculateMockESI_def or_default_def axisScore_def js_div_def Math_pow_def esi_formula_def)

text \<open>C1 at a canonical record with Earth's radius and orbit under another name.\<close>

theorem C1_earthSimilarityIndex_witness:
  "canonical twin_planet \<and> name twin_planet \<noteq> ''Earth'' \<and> name twin_planet \<noteq> ''Jupiter'' \<and>
   calculateMockESI twin_planet = Some 1"
proof -
  have h: "canonical twin_planet \<and> name twin_planet \<noteq> ''Earth'' \<and> name twin_planet \<noteq> ''Jupiter''"
    by (simp add: twin_planet_def canonical_def orbit_period_def orbit_semiMajorAxis_def)
  have v: "orbit_semiMajorAxis twin_planet = Some 1" "orbit_period twin_planet = Some 365.25"
      "radius twin_planet = 6371"
    by (simp_all add: twin_planet_def orbit_period_def orbit_semiMajorAxis_def)
  have f: "esi_formula 6371 1 365.25 = 1" by (simp add: esi_formula_def)
  from C1_earthSimilarityIndex[of twin_planet] h obtain a d where
    o: "orbit_semiMajorAxis twin_planet = Some a" "orbit_period twin_planet = Some d"
    and e: "calculateMockESI twin_planet =
       Some (esi_formula (radius twin_planet) (if a = 0 then 1 else a) d)"
    by blast
  from o v have a: "a = 1" and d: "d = 365.25" by simp_all
  have "calculateMockESI twin_planet = Some 1"
    using e f unfolding a d v by simp
  with h show ?thesis by simp
qed

lemma or_default_nonzero: "d \<noteq> 0 \<Longrightarrow> or_default field d \<noteq> 0"
  by (simp add: or_default_def split: option.splits)

lemma Math_round_nonneg: "0 \<le> x \<Longrightarrow> 0 \<le> Math_round x"
  by (simp add: Math_round_def)

lemma calculateMockTemperature_nonneg:
  assumes "calculateMockTemperature p = Some t"
  shows "0 \<le> t"
proof (cases "name p = ''Earth'' \<or> name p = ''Jupiter''")
  case True
  with assms show ?thesis by (auto simp: calculateMockTemperature_def split: if_splits)
next
  case False
  define a where "a = or_default (orbit_semiMajorAxis p) 1"
  from False assms obtain pw where pw: "Math_pow a (- 0.5) = Some pw" and t: "t = Math_round (288 * pw)"
    by (auto simp: calculateMockTemperature_def Let_def a_def split: Option.bind_splits)
  have "a \<noteq> 0" by (simp add: a_def or_default_nonzero)
  with pw have "0 \<le> pw"
    by (auto simp: Math_pow_def split: if_splits)
  then show ?thesis using t by (simp add: Math_round_nonneg)
qed

text \<open>
  C2, as amended. The temperature is 288 for a record named Earth and 165 for one named
  Jupiter; otherwise it is \<open>288 * a powr (-0.5)\<close> rounded to the nearest integer by
  \<open>Math.round\<close>, where \<open>a\<close> is the semi-major axis, or 1 when the field is absent or 0,
  provided \<open>a\<close> is positive. The base of the power is never 0, and a temperature that is
  returned is never negative.
\<close>

theorem C2_equilibriumTemperature:
  "(name p = ''Earth'' \<longrightarrow> calculateMockTemperature p = Some 288) \<and>
   (name p = ''Jupiter'' \<longrightarrow> calculateMockTemperature p = Some 165) \<and>
   (name p \<noteq> ''Earth'' \<and> name p \<noteq> ''Jupiter'' \<and> 0 < or_default (orbit_semiMajorAxis p) 1 \<longrightarrow>
      calculateMockTemperature p =
        Some (Math_round (288 * or_default (orbit_semiMajorAxis p) 1 powr (- 0.5)))) \<and>
   (orbit_semiMajorAxis p = None \<or> orbit_semiMajorAxis p = Some 0 \<longrightarrow>
      or_default (orbit_semiMajorAxis p) 1 = 1) \<and>
   or_default (orbit_semiMajorAxis p) 1 \<noteq> 0 \<and>
   (\<forall>t. calculateMockTemperature p = Some t \<longrightarrow> 0 \<le> t)"
proof (intro conjI impI allI)
  show "calculateMockTemperature p = Some 288" if "name p = ''Earth''"
    using that by (simp add: calculateMockTemperature_def)
  show "calculateMockTemperature p = Some 165" if "name p = ''Jupiter''"
    using that by (simp add: calculateMockTemperature_def)
  show "calculateMockTemperature p =
        Some (Math_round (288 * or_default (orbit_semiMajorAxis p) 1 powr (- 0.5)))"
    if "name p \<noteq> ''Earth'' \<and> name p \<noteq> ''Jupiter'' \<and> 0 < or_default (orbit_semiMajorAxis p) 1"
    using that by (simp add: calculateMockTemperature_def Math_pow_def Let_def)
  show "or_default (orbit_semiMajorAxis p) 1 = 1"
    if "orbit_semiMajorAxis p = None \<or> orbit_semiMajorAxis p = Some 0"
    using that by (auto simp: or_default_def)
  show "or_default (orbit_semiMajorAxis p) 1 \<noteq> 0"
    by (simp add: or_default_nonzero)
  show "0 \<le> t" if "calculateMockTemperature p = Some t" for t
    using that by (rule calculateMockTemperature_nonneg)
qed

lemma powr_25: "(25::real) powr (- (1 / 2)) = 1 / 5"
proof -
  have "sqrt 25 = 5" using real_sqrt_abs[of 5] by simp
  moreover have "(25::real) powr (- (1 / 2)) = inverse (25 powr (1 / 2))" by (rule powr_minus)
  ultimately show ?thesis by (simp add: powr_half_sqrt inverse_eq_divide)
qed

text \<open>
  C2 as stated fails at a semi-major axis of 25: the formula gives 57.6, the function
  returns 58.
\<close>

theorem C2_rounding_counterexample:
  "name far_planet \<noteq> ''Earth'' \<and> name far_planet \<noteq> ''Jupiter'' \<and>
   orbit_semiMajorAxis far_planet = Some 25 \<and>
   calculateMockTemperature far_planet = Some 58 \<and>
   288 * (25::real) powr (- 0.5) = 57.6"
proof -
  have a: "orbit_semiMajorAxis far_planet = Some 25" "name far_planet = ''KOI-2.01''"
    by (simp_all add: far_planet_def orbit_semiMajorAxis_def)
  have "calculateMockTemperature far_planet = Some 58"
    using a
    by (simp add: calculateMockTemperature_def or_default_def Math_pow_def Math_round_def powr_25)
  with a show ?thesis by (simp add: powr_25)
qed

text \<open>C2 at the record with a semi-major axis of 25.\<close>

theorem C2_equilibriumTemperature_witness:
  "name far_planet \<noteq> ''Earth'' \<and> name far_planet \<noteq> ''Jupiter'' \<and>
   0 < or_default (orbit_semiMajorAxis far_planet) 1 \<and>
   calculateMockTemperature far_planet = Some 58"
proof -
  have a: "or_default (orbit_semiMajorAxis far_planet) 1 = 25" "name far_planet = ''KOI-2.01''"
    by (simp_all add: far_planet_def orbit_semiMajorAxis_def or_default_def)
  then have h: "name far_planet \<noteq> ''Earth'' \<and> name far_planet \<noteq> ''Jupiter'' \<and>
      0 < or_default (orbit_semiMajorAxis far_planet) 1"
    by simp
  with C2_equilibriumTemperature[of far_planet]
  have "calculateMockTemperature far_planet =
        Some (Math_round (288 * or_default (orbit_semiMajorAxis far_planet) 1 powr (- 0.5)))"
    by blast
  then have "calculateMockTemperature far_planet = Some 58"
    unfolding a by (simp add: Math_round_def powr_25)
  with h show ?thesis by simp
qed

text \<open>
  C8. For a record whose period \<open>d\<close> is positive, one frame turns the planet by
  \<open>(2 * pi / d) / 86400 * (3600 / 60)\<close> times 100 when auto-rotate is on and times 1 when
  it is off. The angle is the product of that base angle and the multiplier, so doubling
  the multiplier doubles it.
\<close>

theorem C8_rotationAngularVelocity:
  "(orbit_period p = Some d \<and> 0 < d \<longrightarrow>
      rotationStep p True = (2 * pi / d) / 86400 * (3600 / 60) * 100 \<and>
      rotationStep p False = (2 * pi / d) / 86400 * (3600 / 60) * 1 \<and>
      rotationStep p b = finalRotationSpeed d (if b then 100 else 1)) \<and>
   finalRotationSpeed d (2 * m) = 2 * finalRotationSpeed d m"
  by (simp add: rotationStep_def finalRotationSpeed_def radiansPerFrame_def or_default_def Let_def)

text \<open>C8 at a record with a period of 365.25 days.\<close>

theorem C8_rotationAngularVelocity_witness:
  "orbit_period twin_planet = Some 365.25 \<and> (0::real) < 365.25 \<and>
   rotationStep twin_planet True = (2 * pi / 365.25) / 86400 * (3600 / 60) * 100 \<and>
   rotationStep twin_planet False = (2 * pi / 365.25) / 86400 * (3600 / 60) * 1"
proof -
  have h: "orbit_period twin_planet = Some 365.25 \<and> (0::real) < 365.25"
    by (simp add: twin_planet_def orbit_period_def)
  with C8_rotationAngularVelocity[of twin_planet "365.25" True 1] show ?thesis
    by blast
qed

section \<open>Sync rotation\<close>

text \<open>
  C3. \<open>syncRotation\<close> sets the auto-rotate flag of both viewers to the negation of the
  left viewer's flag. From left on and right off, one call leaves both off and a second
  call leaves both on.
\<close>

theorem C3_syncRotation:
  "autoRotate (leftViewer (syncRotation s)) = (\<not> autoRotate (leftViewer s)) \<and>
   autoRotate (rightViewer (syncRotation s)) = (\<not> autoRotate (leftViewer s)) \<and>
   (autoRotate (leftViewer s) \<and> \<not> autoRotate (rightViewer s) \<longrightarrow>
      \<not> autoRotate (leftViewer (syncRotation s)) \<and>
      \<not> autoRotate (rightViewer (syncRotation s)) \<and>
      autoRotate (leftViewer (syncRotation (syncRotation s))) \<and>
      autoRotate (rightViewer (syncRotation (syncRotation s))))"
  by (simp add: syncRotation_def Let_def)

text \<open>C3 on the category page as declared: the right viewer switched off first.\<close>

theorem C3_syncRotation_witness:
  "autoRotate (leftViewer (mixed_session)) \<and> \<not> autoRotate (rightViewer (mixed_session)) \<and>
   \<not> autoRotate (leftViewer (syncRotation mixed_session)) \<and>
   \<not> autoRotate (rightViewer (syncRotation mixed_session)) \<and>
   autoRotate (leftViewer (syncRotation (syncRotation mixed_session))) \<and>
   autoRotate (rightViewer (syncRotation (syncRotation mixed_session)))"
proof -
  have h: "autoRotate (leftViewer (mixed_session)) \<and> \<not> autoRotate (rightViewer (mixed_session))"
    by (simp add: mixed_session_def leftViewer0_def rightViewer0_def toggleAutoRotate_def)
  with C3_syncRotation[of mixed_session] show ?thesis by blast
qed

section \<open>Navigation and categories of the category dual viewer\<close>

lemma showPlanet_in_range:
  "index_in_range v \<Longrightarrow> index_in_range (showPlanet v i)"
  by (simp add: showPlanet_def index_in_range_def)

lemma showPlanet_list [simp]: "availablePlanets (showPlanet v i) = availablePlanets v"
  by (simp add: showPlanet_def)

lemma changePlanetCategory_in_range: "index_in_range (changePlanetCategory g v c)"
  by (simp add: changePlanetCategory_def showPlanet_def index_in_range_def Let_def)

lemma nextPlanet_in_range: "index_in_range v \<Longrightarrow> index_in_range (nextPlanet v)"
  by (simp add: nextPlanet_def showPlanet_in_range)

lemma previousPlanet_in_range: "index_in_range v \<Longrightarrow> index_in_range (previousPlanet v)"
  by (simp add: previousPlanet_def showPlanet_in_range)

lemma toggleAutoRotate_in_range: "index_in_range v \<Longrightarrow> index_in_range (toggleAutoRotate v)"
  by (simp add: toggleAutoRotate_def index_in_range_def)

lemma searchSelectChange_in_range:
  "index_in_range v \<Longrightarrow> index_in_range (searchSelectChange v i)"
  by (simp add: searchSelectChange_def showPlanet_in_range split: option.splits)

lemma autoRotate_update_in_range:
  "index_in_range (v\<lparr>autoRotate := b\<rparr>) = index_in_range v"
  by (simp add: index_in_range_def)

lemma handle_event_in_range:
  assumes "session_in_range s"
  shows "session_in_range (handle_event g s e)"
proof (cases e)
  case (PrevClick sd)
  with assms show ?thesis
    by (cases sd) (simp_all add: session_in_range_def on_side_def previousPlanet_in_range)
next
  case (NextClick sd)
  with assms show ?thesis
    by (cases sd) (simp_all add: session_in_range_def on_side_def nextPlanet_in_range)
next
  case (AutoRotateClick sd)
  with assms show ?thesis
    by (cases sd) (simp_all add: session_in_range_def on_side_def toggleAutoRotate_in_range)
next
  case (CategoryChange sd c)
  with assms show ?thesis
    by (cases sd) (simp_all add: session_in_range_def on_side_def changePlanetCategory_in_range)
next
  case (SearchChange sd i)
  with assms show ?thesis
    by (cases sd) (simp_all add: session_in_range_def on_side_def searchSelectChange_in_range)
next
  case SyncRotationClick
  with assms show ?thesis
    by (simp add: session_in_range_def syncRotation_def Let_def autoRotate_update_in_range)
qed

lemma run_in_range:
  "session_in_range s \<Longrightarrow> session_in_range (foldl (handle_event g) s es)"
  by (induction es arbitrary: s) (simp_all add: handle_event_in_range)

lemma init_timeout_in_range: "session_in_range (init_timeout g s)"
  by (simp add: session_in_range_def init_timeout_def changePlanetCategory_in_range)

text \<open>
  C4, as amended. Once the callback scheduled by \<open>init\<close> has run the first category
  change on both viewers, whatever the session was before, every sequence of events
  leaves both viewers with an index inside a candidate list that is not empty. Navigation
  keeps the index in range and never wraps: \<open>previousPlanet\<close> at index 0 and \<open>nextPlanet\<close>
  at the last index return the viewer unchanged.
\<close>

theorem C4_navigation:
  "index_in_range (leftViewer (foldl (handle_event g) (init_timeout g s) es)) \<and>
   index_in_range (rightViewer (foldl (handle_event g) (init_timeout g s) es)) \<and>
   (index_in_range v \<longrightarrow> index_in_range (nextPlanet v) \<and> index_in_range (previousPlanet v)) \<and>
   (currentPlanetIndex v = 0 \<longrightarrow> previousPlanet v = v) \<and>
   (currentPlanetIndex v = int (length (availablePlanets v)) - 1 \<longrightarrow> nextPlanet v = v)"
proof -
  have "session_in_range (foldl (handle_event g) (init_timeout g s) es)"
    by (rule run_in_range) (rule init_timeout_in_range)
  then have run: "index_in_range (leftViewer (foldl (handle_event g) (init_timeout g s) es))"
      "index_in_range (rightViewer (foldl (handle_event g) (init_timeout g s) es))"
    by (simp_all add: session_in_range_def)
  have step: "index_in_range v \<longrightarrow> index_in_range (nextPlanet v) \<and> index_in_range (previousPlanet v)"
    by (simp add: nextPlanet_in_range previousPlanet_in_range)
  have first: "currentPlanetIndex v = 0 \<longrightarrow> previousPlanet v = v"
    by (simp add: previousPlanet_def)
  have last: "currentPlanetIndex v = int (length (availablePlanets v)) - 1 \<longrightarrow> nextPlanet v = v"
    by (simp add: nextPlanet_def)
  from run step first last show ?thesis by blast
qed

text \<open>
  C4 as stated fails between the return of \<open>init\<close> and that callback: the right viewer
  is declared with index 1 and \<open>init\<close> assigns it the one-element Jupiter list.
\<close>

theorem C4_startup_counterexample:
  "availablePlanets (rightViewer (init example_globals)) = [jupiter_record] \<and>
   currentPlanetIndex (rightViewer (init example_globals)) = 1 \<and>
   \<not> index_in_range (rightViewer (init example_globals))"
  by (simp add: init_def rightViewer0_def example_globals_def getPlanetsForCategory_def
      earth_record_def jupiter_record_def index_in_range_def)

lemma exo_viewer_eq:
  "exo_viewer = \<lparr>currentPlanetIndex = 0, currentPlanet = Some twin_planet, autoRotate = True,
     availablePlanets = [twin_planet, far_planet]\<rparr>"
  by (simp add: exo_viewer_def changePlanetCategory_def leftViewer0_def example_globals_def
      getPlanetsForCategory_def showPlanet_def)

text \<open>C4 on the two-element exoplanet list, at its first and at its last index.\<close>

theorem C4_navigation_witness:
  "availablePlanets exo_viewer \<noteq> [] \<and>
   currentPlanetIndex exo_viewer = 0 \<and>
   previousPlanet exo_viewer = exo_viewer \<and>
   currentPlanetIndex (nextPlanet exo_viewer) = int (length (availablePlanets (nextPlanet exo_viewer))) - 1 \<and>
   nextPlanet (nextPlanet exo_viewer) = nextPlanet exo_viewer \<and>
   index_in_range exo_viewer \<and> index_in_range (nextPlanet exo_viewer) \<and>
   availablePlanets (leftViewer (foldl (handle_event example_globals)
       (init_timeout example_globals (init example_globals)) [CategoryChange Left ''exoplanets'', NextClick Left])) \<noteq> [] \<and>
   currentPlanetIndex (leftViewer (foldl (handle_event example_globals)
       (init_timeout example_globals (init example_globals)) [CategoryChange Left ''exoplanets'', NextClick Left])) = 1"
proof -
  have a: "availablePlanets exo_viewer \<noteq> []" "currentPlanetIndex exo_viewer = 0"
    by (simp_all add: exo_viewer_eq)
  have n: "currentPlanetIndex (nextPlanet exo_viewer) =
      int (length (availablePlanets (nextPlanet exo_viewer))) - 1"
    by (simp add: exo_viewer_eq nextPlanet_def showPlanet_def)
  have r: "index_in_range exo_viewer"
    by (simp add: exo_viewer_eq index_in_range_def)
  note t1 = C4_navigation[of example_globals "init example_globals"
      "[CategoryChange Left ''exoplanets'', NextClick Left]" exo_viewer]
  note t2 = C4_navigation[of example_globals "init example_globals"
      "[CategoryChange Left ''exoplanets'', NextClick Left]" "nextPlanet exo_viewer"]
  have run: "leftViewer (foldl (handle_event example_globals)
       (init_timeout example_globals (init example_globals))
       [CategoryChange Left ''exoplanets'', NextClick Left]) = nextPlanet exo_viewer"
    by (simp add: on_side_def init_timeout_def init_def exo_viewer_def changePlanetCategory_def
        leftViewer0_def example_globals_def getPlanetsForCategory_def showPlanet_def Let_def)
  have i1: "currentPlanetIndex (nextPlanet exo_viewer) = 1"
    by (simp add: exo_viewer_eq nextPlanet_def showPlanet_def)
  have l: "availablePlanets (nextPlanet exo_viewer) \<noteq> []"
    by (simp add: exo_viewer_eq nextPlanet_def)
  from a n r t1 t2 run i1 l show ?thesis by simp
qed

lemma getPlanetsForCategory_subset:
  "set (getPlanetsForCategory g c) \<subseteq> set (solarSystemPlanets g) \<union> set (exoplanets g)"
  by (auto simp: getPlanetsForCategory_def)

text \<open>
  C5. \<open>changePlanetCategory\<close> replaces the candidate list by the category's view of the
  loaded datasets and sets the index to 0. When the list is not empty it calls
  \<open>showPlanet\<close> at 0, so the displayed record is the first of the list. When the list is
  empty the viewer is left without candidates; \<open>currentPlanet\<close> is then not touched.
\<close>

theorem C5_changePlanetCategory:
  "availablePlanets (changePlanetCategory g v c) = getPlanetsForCategory g c \<and>
   set (getPlanetsForCategory g c) \<subseteq> set (solarSystemPlanets g) \<union> set (exoplanets g) \<and>
   currentPlanetIndex (changePlanetCategory g v c) = 0 \<and>
   (getPlanetsForCategory g c \<noteq> [] \<longrightarrow>
      changePlanetCategory g v c =
        showPlanet (v\<lparr>availablePlanets := getPlanetsForCategory g c, currentPlanetIndex := 0\<rparr>) 0 \<and>
      currentPlanet (changePlanetCategory g v c) = Some (getPlanetsForCategory g c ! 0)) \<and>
   (getPlanetsForCategory g c = [] \<longrightarrow>
      availablePlanets (changePlanetCategory g v c) = [] \<and>
      currentPlanet (changePlanetCategory g v c) = currentPlanet v)"
  using getPlanetsForCategory_subset[of g c]
  by (simp add: changePlanetCategory_def showPlanet_def Let_def)

text \<open>
  C5 from index 7 of a ten-element list to the two-element exoplanet list, and to the
  empty Earth list of an empty catalog.
\<close>

theorem C5_changePlanetCategory_witness:
  "getPlanetsForCategory example_globals ''exoplanets'' \<noteq> [] \<and>
   currentPlanetIndex (changePlanetCategory example_globals seven_viewer ''exoplanets'') = 0 \<and>
   currentPlanet (changePlanetCategory example_globals seven_viewer ''exoplanets'') = Some twin_planet \<and>
   getPlanetsForCategory empty_globals ''earth'' = [] \<and>
   availablePlanets (changePlanetCategory empty_globals seven_viewer ''earth'') = []"
proof -
  have a: "getPlanetsForCategory example_globals ''exoplanets'' = [twin_planet, far_planet]"
    by (simp add: getPlanetsForCategory_def example_globals_def)
  have b: "getPlanetsForCategory empty_globals ''earth'' = []"
    by (simp add: getPlanetsForCategory_def empty_globals_def)
  note t1 = C5_changePlanetCategory[of example_globals seven_viewer "''exoplanets''"]
  note t2 = C5_changePlanetCategory[of empty_globals seven_viewer "''earth''"]
  from t1 have i: "currentPlanetIndex (changePlanetCategory example_globals seven_viewer ''exoplanets'') = 0"
    by blast
  from a have ne: "getPlanetsForCategory example_globals ''exoplanets'' \<noteq> []" by simp
  with t1 have "currentPlanet (changePlanetCategory example_globals seven_viewer ''exoplanets'') =
      Some (getPlanetsForCategory example_globals ''exoplanets'' ! 0)"
    by blast
  then have c: "currentPlanet (changePlanetCategory example_globals seven_viewer ''exoplanets'') =
      Some twin_planet"
    by (simp add: a)
  from t2 b have e: "availablePlanets (changePlanetCategory empty_globals seven_viewer ''earth'') = []"
    by blast
  from ne i c b e show ?thesis by blast
qed

text \<open>
  C10. The change listener of the search dropdown hands the chosen option's index, an
  index into the global \<open>planets\<close>, to \<open>showPlanet\<close>, which reads it against the viewer's
  candidate list: outside that list's range the choice changes nothing, inside it the
  candidate at that index is displayed. With the Earth list assigned by \<open>init\<close>, choosing
  the catalog's second record does nothing and choosing its first displays Earth, which
  is not that record. (\<open>changePlanetCategory\<close> hides the dropdown for the categories other
  than exoplanets; the listener itself has no guard.)
\<close>

theorem C10_search_dropdown_index:
  "searchSelectChange v (Some i) = showPlanet v i \<and>
   (i < 0 \<or> int (length (availablePlanets v)) \<le> i \<longrightarrow> searchSelectChange v (Some i) = v) \<and>
   (0 \<le> i \<and> i < int (length (availablePlanets v)) \<longrightarrow>
      currentPlanetIndex (searchSelectChange v (Some i)) = i \<and>
      currentPlanet (searchSelectChange v (Some i)) = Some (availablePlanets v ! nat i)) \<and>
   availablePlanets (leftViewer (init example_globals)) = [earth_record] \<and>
   planets example_globals = [twin_planet, far_planet] \<and>
   searchSelectChange (leftViewer (init example_globals)) (Some 1) = leftViewer (init example_globals) \<and>
   currentPlanet (searchSelectChange (leftViewer (init example_globals)) (Some 0)) = Some earth_record \<and>
   earth_record \<noteq> planets example_globals ! 0 \<and>
   \<not> searchInputDisplay ''earth'' \<and> \<not> searchInputDisplay ''jupiter'' \<and>
   searchInputDisplay ''exoplanets''"
proof -
  have l: "availablePlanets (leftViewer (init example_globals)) = [earth_record]"
    by (simp add: init_def leftViewer0_def example_globals_def getPlanetsForCategory_def
        earth_record_def jupiter_record_def)
  have p: "planets example_globals = [twin_planet, far_planet]"
    by (simp add: example_globals_def)
  have d: "earth_record \<noteq> planets example_globals ! 0"
    by (simp add: p earth_record_def twin_planet_def)
  show ?thesis
    using l p d by (simp add: searchSelectChange_def showPlanet_def searchInputDisplay_def)
qed

text \<open>C10 on the one-element Jupiter list.\<close>

theorem C10_search_dropdown_index_witness:
  "((1::int) < 0 \<or> int (length (availablePlanets jupiter_viewer)) \<le> 1) \<and>
   searchSelectChange jupiter_viewer (Some 1) = jupiter_viewer \<and>
   (0::int) \<le> 0 \<and> (0::int) < int (length (availablePlanets jupiter_viewer)) \<and>
   currentPlanet (searchSelectChange jupiter_viewer (Some 0)) = Some jupiter_record"
proof -
  have l: "availablePlanets jupiter_viewer = [jupiter_record]"
    by (simp add: jupiter_viewer_def changePlanetCategory_def showPlanet_def leftViewer0_def
        example_globals_def getPlanetsForCategory_def earth_record_def jupiter_record_def)
  then have h1: "(1::int) < 0 \<or> int (length (availablePlanets jupiter_viewer)) \<le> 1"
    and h0: "(0::int) \<le> 0 \<and> (0::int) < int (length (availablePlanets jupiter_viewer))"
    by simp_all
  from h1 C10_search_dropdown_index[of jupiter_viewer 1]
  have out: "searchSelectChange jupiter_viewer (Some 1) = jupiter_viewer"
    by blast
  from h0 C10_search_dropdown_index[of jupiter_viewer 0]
  have "currentPlanet (searchSelectChange jupiter_viewer (Some 0)) =
      Some (availablePlanets jupiter_viewer ! nat 0)"
    by blast
  then have inr: "currentPlanet (searchSelectChange jupiter_viewer (Some 0)) = Some jupiter_record"
    by (simp add: l)
  from h1 h0 out inr show ?thesis by blast
qed

section \<open>Text search\<close>

lemma str_includes_sublist: "str_includes s q \<longleftrightarrow> sublist q s"
  by (induction s) (simp_all add: sublist_Cons_right)

lemma indexOf_member:
  "x \<in> set xs \<Longrightarrow> 0 \<le> indexOf xs x \<and> indexOf xs x < int (length xs) \<and> xs ! nat (indexOf xs x) = x"
proof (induction xs)
  case Nil
  then show ?case by simp
next
  case (Cons y ys)
  show ?case
  proof (cases "y = x")
    case True
    then show ?thesis by simp
  next
    case False
    with Cons.prems have "x \<in> set ys" by simp
    from Cons.IH[OF this] False show ?thesis
      by (simp add: Let_def nat_add_distrib)
  qed
qed

lemma showPlanet_catalog_member:
  assumes "m \<in> set ps"
  shows "currentPlanet (showPlanet_catalog ps v (indexOf ps m)) = Some m"
    and "0 \<le> currentPlanetIndex (showPlanet_catalog ps v (indexOf ps m))"
    and "currentPlanetIndex (showPlanet_catalog ps v (indexOf ps m)) < int (length ps)"
    and "ps ! nat (currentPlanetIndex (showPlanet_catalog ps v (indexOf ps m))) = m"
  using indexOf_member[OF assms] by (simp_all add: showPlanet_catalog_def)

lemma filter_single_member:
  assumes "filter P xs = [m]"
  shows "m \<in> set xs"
proof -
  from assms have "m \<in> set (filter P xs)" by simp
  then show ?thesis by simp
qed

lemma find_member: "find P xs = Some m \<Longrightarrow> m \<in> set xs"
  by (auto simp: find_Some_iff)

lemma lower_char_twice: "lower_char (lower_char c) = lower_char c"
proof -
  define n where "n = (of_char c :: nat)"
  show ?thesis
  proof (cases "(65 \<le> n \<and> n \<le> 90) \<or> (192 \<le> n \<and> n \<le> 222 \<and> n \<noteq> 215)")
    case True
    then have l: "lower_char c = char_of (n + 32)"
      by (simp add: lower_char_def n_def Let_def)
    from True have "n + 32 < 256" by auto
    then have "(of_char (char_of (n + 32)) :: nat) = n + 32"
      by simp
    with True show ?thesis
      unfolding l by (auto simp: lower_char_def Let_def)
  next
    case False
    then have "lower_char c = c" unfolding n_def by (auto simp: lower_char_def Let_def)
    then show ?thesis by simp
  qed
qed

lemma toLowerCase_twice: "toLowerCase (toLowerCase s) = toLowerCase s"
  by (simp add: toLowerCase_def lower_char_twice)

text \<open>
  C6, as amended. Query and fields are compared after lowering both with
  \<open>toLowerCase\<close>, here any function \<open>lower\<close>. On an input event whose lowered query is
  not empty: when exactly one record of the catalog matches on name, id or system, the
  viewer selects that record; when no record or more than one matches, the viewer is
  unchanged. An empty query leaves the viewer unchanged. On Enter the first record that
  matches on name or id is selected, whether or not other records match; without such a
  record the viewer is unchanged. Case does not matter: two queries with the same
  lowering act alike, and so do two records whose fields have the same lowerings; with
  the Latin-1 \<open>toLowerCase\<close> a query acts as its own lowering.
\<close>

theorem C6_search:
  "(lower val \<noteq> [] \<and> filter (matchesInput lower (lower val)) ps = [m] \<longrightarrow>
      currentPlanet (searchInput lower ps v val) = Some m \<and>
      0 \<le> currentPlanetIndex (searchInput lower ps v val) \<and>
      currentPlanetIndex (searchInput lower ps v val) < int (length ps) \<and>
      ps ! nat (currentPlanetIndex (searchInput lower ps v val)) = m) \<and>
   (length (filter (matchesInput lower (lower val)) ps) \<noteq> 1 \<longrightarrow>
      searchInput lower ps v val = v) \<and>
   (lower val = [] \<longrightarrow> searchInput lower ps v val = v) \<and>
   (find (matchesEnter lower (lower val)) ps = Some m \<longrightarrow>
      currentPlanet (searchEnter lower ps v val) = Some m) \<and>
   (find (matchesEnter lower (lower val)) ps = None \<longrightarrow> searchEnter lower ps v val = v) \<and>
   (lower val = lower val' \<longrightarrow>
      searchInput lower ps v val = searchInput lower ps v val' \<and>
      searchEnter lower ps v val = searchEnter lower ps v val') \<and>
   (lower (name p) = lower (name p') \<and> lower (ident p) = lower (ident p') \<and>
    lower (system p) = lower (system p') \<longrightarrow>
      matchesInput lower q p = matchesInput lower q p' \<and>
      matchesEnter lower q p = matchesEnter lower q p') \<and>
   searchInput toLowerCase ps v (toLowerCase val) = searchInput toLowerCase ps v val \<and>
   searchEnter toLowerCase ps v (toLowerCase val) = searchEnter toLowerCase ps v val"
proof (intro conjI impI)
  assume h: "lower val \<noteq> [] \<and> filter (matchesInput lower (lower val)) ps = [m]"
  then have m: "m \<in> set ps" using filter_single_member[of _ ps m] by blast
  from h have e: "searchInput lower ps v val = showPlanet_catalog ps v (indexOf ps m)"
    by (simp add: searchInput_def Let_def)
  show "currentPlanet (searchInput lower ps v val) = Some m"
    and "0 \<le> currentPlanetIndex (searchInput lower ps v val)"
    and "currentPlanetIndex (searchInput lower ps v val) < int (length ps)"
    and "ps ! nat (currentPlanetIndex (searchInput lower ps v val)) = m"
    unfolding e using showPlanet_catalog_member[OF m] by simp_all
next
  assume "length (filter (matchesInput lower (lower val)) ps) \<noteq> 1"
  then show "searchInput lower ps v val = v" by (simp add: searchInput_def Let_def)
next
  assume "lower val = []"
  then show "searchInput lower ps v val = v" by (simp add: searchInput_def Let_def)
next
  assume h: "find (matchesEnter lower (lower val)) ps = Some m"
  then have m: "m \<in> set ps" by (rule find_member)
  from h have "searchEnter lower ps v val = showPlanet_catalog ps v (indexOf ps m)"
    by (simp add: searchEnter_def Let_def)
  then show "currentPlanet (searchEnter lower ps v val) = Some m"
    using showPlanet_catalog_member(1)[OF m] by simp
next
  assume "find (matchesEnter lower (lower val)) ps = None"
  then show "searchEnter lower ps v val = v" by (simp add: searchEnter_def Let_def)
next
  assume "lower val = lower val'"
  then show "searchInput lower ps v val = searchInput lower ps v val'"
    and "searchEnter lower ps v val = searchEnter lower ps v val'"
    by (simp_all add: searchInput_def searchEnter_def)
next
  assume "lower (name p) = lower (name p') \<and> lower (ident p) = lower (ident p') \<and>
    lower (system p) = lower (system p')"
  then show "matchesInput lower q p = matchesInput lower q p'"
    and "matchesEnter lower q p = matchesEnter lower q p'"
    by (simp_all add: matchesInput_def matchesEnter_def)
next
  show "searchInput toLowerCase ps v (toLowerCase val) = searchInput toLowerCase ps v val"
    by (simp add: searchInput_def toLowerCase_twice)
  show "searchEnter toLowerCase ps v (toLowerCase val) = searchEnter toLowerCase ps v val"
    by (simp add: searchEnter_def toLowerCase_twice)
qed

lemma lower_fields:
  "toLowerCase (name twin_planet) = ''koi-3.01''"
  "toLowerCase (ident twin_planet) = ''k00003.01''"
  "toLowerCase (system twin_planet) = ''koi-3''"
  "toLowerCase (name far_planet) = ''koi-2.01''"
  "toLowerCase (ident far_planet) = ''k00002.01''"
  "toLowerCase (system far_planet) = ''koi-2''"
  by (simp_all add: toLowerCase_def lower_char_def twin_planet_def far_planet_def char_of_eq_iff)

lemma lower_small_fields:
  "toLowerCase (name small_twin_planet) = ''koi-3.01''"
  "toLowerCase (ident small_twin_planet) = ''k00003.01''"
  "toLowerCase (system small_twin_planet) = ''koi-3''"
  by (simp_all add: toLowerCase_def lower_char_def small_twin_planet_def char_of_eq_iff)

lemma lower_epsilon_fields:
  "toLowerCase (name epsilon_planet) = CHR 0xE9 # ''psilon''"
  "toLowerCase (ident epsilon_planet) = ''hd-22049-b''"
  "toLowerCase (system epsilon_planet) = ''hd-22049''"
  by (simp_all add: toLowerCase_def lower_char_def epsilon_planet_def char_of_eq_iff)

lemma lower_queries:
  "toLowerCase ''KOI'' = ''koi''" "toLowerCase ''-3'' = ''-3''" "toLowerCase ''zz'' = ''zz''"
  "toLowerCase [] = []" "toLowerCase ''koi'' = ''koi''"
  "toLowerCase [CHR 0xE9] = [CHR 0xE9]"
  by (simp_all add: toLowerCase_def lower_char_def char_of_eq_iff)

lemma planets_differ: "twin_planet \<noteq> far_planet"
  by (simp add: twin_planet_def far_planet_def)

lemma filter_KOI:
  "filter (matchesInput toLowerCase ''koi'') two_planets = [twin_planet, far_planet]"
  by (simp add: two_planets_def matchesInput_def lower_fields)

lemma filter_3: "filter (matchesInput toLowerCase ''-3'') two_planets = [twin_planet]"
  by (simp add: two_planets_def matchesInput_def lower_fields)

lemma filter_empty: "filter (matchesInput toLowerCase []) [twin_planet] = [twin_planet]"
  by (simp add: matchesInput_def lower_fields)

lemma filter_accent:
  "filter (matchesInput toLowerCase [CHR 0xE9]) accent_planets = [epsilon_planet]"
  by (simp add: accent_planets_def matchesInput_def lower_fields lower_epsilon_fields)

lemma find_KOI: "find (matchesEnter toLowerCase ''koi'') two_planets = Some twin_planet"
  by (simp add: two_planets_def matchesEnter_def lower_fields)

lemma find_zz: "find (matchesEnter toLowerCase ''zz'') two_planets = None"
  by (simp add: two_planets_def matchesEnter_def lower_fields)

text \<open>
  C6 as stated fails twice. With two records matching \<open>KOI\<close>, Enter moves the selection
  from the second record to the first. With a one-record catalog, which the right viewer
  does not display at start-up, the empty query matches exactly that record and selects
  nothing.
\<close>

theorem C6_search_counterexample:
  "length (filter (matchesInput toLowerCase (toLowerCase ''KOI'')) two_planets) = 2 \<and>
   currentPlanet second_viewer = Some far_planet \<and>
   currentPlanet (searchEnter toLowerCase two_planets second_viewer ''KOI'') = Some twin_planet \<and>
   searchEnter toLowerCase two_planets second_viewer ''KOI'' \<noteq> second_viewer \<and>
   filter (matchesInput toLowerCase (toLowerCase [])) [twin_planet] = [twin_planet] \<and>
   currentPlanet unset_viewer = None \<and>
   searchInput toLowerCase [twin_planet] unset_viewer [] = unset_viewer"
proof -
  have "searchEnter toLowerCase two_planets second_viewer ''KOI'' =
      showPlanet_catalog two_planets second_viewer (indexOf two_planets twin_planet)"
    by (simp add: searchEnter_def lower_queries find_KOI Let_def)
  then have e:
    "currentPlanet (searchEnter toLowerCase two_planets second_viewer ''KOI'') = Some twin_planet"
    by (simp add: showPlanet_catalog_def two_planets_def)
  have c: "currentPlanet second_viewer = Some far_planet"
    by (simp add: second_viewer_def)
  from e c planets_differ
  have d: "searchEnter toLowerCase two_planets second_viewer ''KOI'' \<noteq> second_viewer"
    by auto
  have n: "length (filter (matchesInput toLowerCase (toLowerCase ''KOI'')) two_planets) = 2"
    by (simp add: lower_queries filter_KOI)
  have f: "filter (matchesInput toLowerCase (toLowerCase [])) [twin_planet] = [twin_planet]"
    unfolding lower_queries by (rule filter_empty)
  have u: "currentPlanet unset_viewer = None"
    by (simp add: unset_viewer_def)
  have i: "searchInput toLowerCase [twin_planet] unset_viewer [] = unset_viewer"
    by (simp add: searchInput_def lower_queries)
  from n c e d f u i show ?thesis by blast
qed

text \<open>
  C6 with the Latin-1 \<open>toLowerCase\<close>, one query for each case: the small e with acute
  finds the record whose name begins with the capital one.
\<close>

theorem C6_search_witness:
  "toLowerCase [CHR 0xE9] \<noteq> [] \<and>
   filter (matchesInput toLowerCase (toLowerCase [CHR 0xE9])) accent_planets = [epsilon_planet] \<and>
   currentPlanet (searchInput toLowerCase accent_planets second_viewer [CHR 0xE9]) =
     Some epsilon_planet \<and>
   toLowerCase ''-3'' \<noteq> [] \<and>
   filter (matchesInput toLowerCase (toLowerCase ''-3'')) two_planets = [twin_planet] \<and>
   currentPlanet (searchInput toLowerCase two_planets second_viewer ''-3'') = Some twin_planet \<and>
   length (filter (matchesInput toLowerCase (toLowerCase ''KOI'')) two_planets) \<noteq> 1 \<and>
   searchInput toLowerCase two_planets second_viewer ''KOI'' = second_viewer \<and>
   toLowerCase [] = [] \<and> searchInput toLowerCase two_planets second_viewer [] = second_viewer \<and>
   find (matchesEnter toLowerCase (toLowerCase ''KOI'')) two_planets = Some twin_planet \<and>
   currentPlanet (searchEnter toLowerCase two_planets second_viewer ''KOI'') = Some twin_planet \<and>
   find (matchesEnter toLowerCase (toLowerCase ''zz'')) two_planets = None \<and>
   searchEnter toLowerCase two_planets second_viewer ''zz'' = second_viewer \<and>
   toLowerCase ''KOI'' = toLowerCase ''koi'' \<and>
   searchEnter toLowerCase two_planets second_viewer ''KOI'' =
     searchEnter toLowerCase two_planets second_viewer ''koi'' \<and>
   toLowerCase (name twin_planet) = toLowerCase (name small_twin_planet) \<and>
   toLowerCase (ident twin_planet) = toLowerCase (ident small_twin_planet) \<and>
   toLowerCase (system twin_planet) = toLowerCase (system small_twin_planet) \<and>
   matchesInput toLowerCase ''-3'' twin_planet = matchesInput toLowerCase ''-3'' small_twin_planet"
proof -
  have h0: "toLowerCase [CHR 0xE9] \<noteq> [] \<and>
      filter (matchesInput toLowerCase (toLowerCase [CHR 0xE9])) accent_planets = [epsilon_planet]"
    by (simp add: lower_queries filter_accent)
  have h1: "toLowerCase ''-3'' \<noteq> [] \<and>
      filter (matchesInput toLowerCase (toLowerCase ''-3'')) two_planets = [twin_planet]"
    by (simp add: lower_queries filter_3)
  have h2: "length (filter (matchesInput toLowerCase (toLowerCase ''KOI'')) two_planets) \<noteq> 1"
    by (simp add: lower_queries filter_KOI)
  have h3: "toLowerCase [] = []" by (simp add: lower_queries)
  have h4: "find (matchesEnter toLowerCase (toLowerCase ''KOI'')) two_planets = Some twin_planet"
    by (simp add: lower_queries find_KOI)
  have h5: "find (matchesEnter toLowerCase (toLowerCase ''zz'')) two_planets = None"
    by (simp add: lower_queries find_zz)
  have h6: "toLowerCase ''KOI'' = toLowerCase ''koi''"
    by (simp add: lower_queries)
  have h7: "toLowerCase (name twin_planet) = toLowerCase (name small_twin_planet) \<and>
      toLowerCase (ident twin_planet) = toLowerCase (ident small_twin_planet) \<and>
      toLowerCase (system twin_planet) = toLowerCase (system small_twin_planet)"
    by (simp add: lower_fields lower_small_fields)
  note t = C6_search[where lower = toLowerCase and v = second_viewer
      and p = twin_planet and p' = small_twin_planet and q = "''-3''" and val' = "''koi''"]
  from h0 t[where val = "[CHR 0xE9]" and ps = accent_planets and m = epsilon_planet]
  have c0: "currentPlanet (searchInput toLowerCase accent_planets second_viewer [CHR 0xE9]) =
      Some epsilon_planet"
    by blast
  from h1 t[where val = "''-3''" and ps = two_planets and m = twin_planet]
  have c1: "currentPlanet (searchInput toLowerCase two_planets second_viewer ''-3'') =
      Some twin_planet"
    by blast
  from h2 t[where val = "''KOI''" and ps = two_planets and m = twin_planet]
  have c2: "searchInput toLowerCase two_planets second_viewer ''KOI'' = second_viewer"
    by blast
  from h3 t[where val = "[]" and ps = two_planets and m = twin_planet]
  have c3: "searchInput toLowerCase two_planets second_viewer [] = second_viewer"
    by blast
  from h4 t[where val = "''KOI''" and ps = two_planets and m = twin_planet]
  have c4: "currentPlanet (searchEnter toLowerCase two_planets second_viewer ''KOI'') =
      Some twin_planet"
    by blast
  from h5 t[where val = "''zz''" and ps = two_planets and m = twin_planet]
  have c5: "searchEnter toLowerCase two_planets second_viewer ''zz'' = second_viewer"
    by blast
  from h6 t[where val = "''KOI''" and ps = two_planets and m = twin_planet]
  have c6: "searchEnter toLowerCase two_planets second_viewer ''KOI'' =
      searchEnter toLowerCase two_planets second_viewer ''koi''"
    by blast
  from h7 t[where val = "''KOI''" and ps = two_planets and m = twin_planet]
  have c7: "matchesInput toLowerCase ''-3'' twin_planet =
      matchesInput toLowerCase ''-3'' small_twin_planet"
    by blast
  from h0 h1 h2 h3 h4 h5 h6 h7 c0 c1 c2 c3 c4 c5 c6 c7 show ?thesis by blast
qed

section \<open>Loaders when every source fails\<close>

lemma loadPlanetData_single_placeholder:
  "loadPlanetData_single None None None = [examplePlanet]"
  by (simp add: loadPlanetData_single_def)

text \<open>
  C7. When every source fails, the loader of the single viewer and of the paginated
  browser returns the one built-in example record, while the loaders of both dual viewers
  return an empty catalog: on the category page every dataset is empty, and so is the
  candidate list of a category.
\<close>

theorem C7_dual_loaders_empty:
  "loadPlanetData_single None None None = [examplePlanet] \<and>
   loadPlanetData_dual None None None = [] \<and>
   planets (loadPlanetData None None) = [] \<and>
   exoplanets (loadPlanetData None None) = [] \<and>
   solarSystemPlanets (loadPlanetData None None) = [] \<and>
   getPlanetsForCategory (loadPlanetData None None) ''earth'' = []"
  by (simp add: loadPlanetData_single_def loadPlanetData_dual_def loadPlanetData_def
      getPlanetsForCategory_def)

section \<open>Pagination\<close>

lemma maxPages_pos:
  assumes "filteredPlanets b \<noteq> []" "0 < planetsPerPage b"
  shows "1 \<le> maxPages b"
proof -
  have "0 < real (length (filteredPlanets b)) / real_of_int (planetsPerPage b)"
    using assms by simp
  then have "0 < maxPages b" unfolding maxPages_def by (simp add: less_ceiling_iff)
  then show ?thesis by simp
qed

lemma maxPages_empty: "filteredPlanets b = [] \<Longrightarrow> maxPages b = 0"
  by (simp add: maxPages_def)

lemma page_reset_in_range:
  assumes "currentPage b = 0" "0 < planetsPerPage b"
  shows "page_in_range b"
  using assms maxPages_pos[of b] by (auto simp: page_in_range_def)

lemma typeFilterChange_fields:
  "currentPage (typeFilterChange b val) = 0"
  "planetsPerPage (typeFilterChange b val) = planetsPerPage b"
  by (simp_all add: typeFilterChange_def applyFilter_def)

lemma planetsPerPageChange_fields:
  "currentPage (planetsPerPageChange b n) = 0"
  "planetsPerPage (planetsPerPageChange b n) = n"
  by (simp_all add: planetsPerPageChange_def)

lemma nextPageClick_in_range:
  assumes "0 < planetsPerPage b" "page_in_range b"
  shows "page_in_range (nextPageClick b)"
proof (cases "currentPage b < maxPages b - 1")
  case True
  then have e: "nextPageClick b = b\<lparr>currentPage := currentPage b + 1\<rparr>"
    using assms by (simp add: nextPageClick_def)
  from True assms have "filteredPlanets b \<noteq> []"
    by (auto simp: page_in_range_def maxPages_empty)
  with True assms show ?thesis
    unfolding e by (simp add: page_in_range_def maxPages_def)
next
  case False
  then have "nextPageClick b = b" using assms by (simp add: nextPageClick_def)
  with assms show ?thesis by simp
qed

lemma prevPageClick_in_range:
  assumes "page_in_range b"
  shows "page_in_range (prevPageClick b)"
  using assms
  by (auto simp: prevPageClick_def page_in_range_def maxPages_def split: if_splits)

lemma browser_step_size:
  "offered_size e \<Longrightarrow> 0 < planetsPerPage b \<Longrightarrow> 0 < planetsPerPage (browser_step b e)"
  by (cases e)
    (auto simp: prevPageClick_def nextPageClick_def typeFilterChange_fields
      planetsPerPageChange_fields)

lemma browser_step_in_range:
  assumes "offered_size e" "0 < planetsPerPage b" "page_in_range b"
  shows "page_in_range (browser_step b e)"
proof (cases e)
  case PrevPage
  with assms show ?thesis by (simp add: prevPageClick_in_range)
next
  case NextPage
  with assms show ?thesis by (simp add: nextPageClick_in_range)
next
  case (TypeFilter val)
  with assms show ?thesis
    by (simp add: page_reset_in_range typeFilterChange_fields)
next
  case (PerPage n)
  with assms have "0 < n" by auto
  with PerPage show ?thesis
    by (simp add: page_reset_in_range planetsPerPageChange_fields)
qed

lemma browser_run_in_range:
  "list_all offered_size es \<Longrightarrow> 0 < planetsPerPage b \<Longrightarrow> page_in_range b \<Longrightarrow>
   page_in_range (foldl browser_step b es)"
proof (induction es arbitrary: b)
  case Nil
  then show ?case by simp
next
  case (Cons e es)
  then show ?case
    by (simp add: browser_step_size browser_step_in_range)
qed

text \<open>
  C9. Changing the type filter or the page size sets the page index to 0, and with a
  positive page size the index then lies in \<open>[0, maxPages - 1]\<close>, or is 0 when the
  filtered list is empty. The next and previous buttons keep the index in that range.
  From the initial state the range holds after every sequence of events that chooses
  among the offered page sizes.
\<close>

theorem C9_pagination:
  "currentPage (typeFilterChange b val) = 0 \<and>
   currentPage (planetsPerPageChange b n) = 0 \<and>
   (0 < planetsPerPage b \<longrightarrow> page_in_range (typeFilterChange b val)) \<and>
   (0 < n \<longrightarrow> page_in_range (planetsPerPageChange b n)) \<and>
   (0 < planetsPerPage b \<and> page_in_range b \<longrightarrow>
      page_in_range (nextPageClick b) \<and> page_in_range (prevPageClick b)) \<and>
   (list_all offered_size es \<longrightarrow> page_in_range (foldl browser_step (populatePlanetSelect ps) es))"
proof (intro conjI impI)
  show "currentPage (typeFilterChange b val) = 0" by (rule typeFilterChange_fields)
  show "currentPage (planetsPerPageChange b n) = 0" by (rule planetsPerPageChange_fields)
  show "page_in_range (typeFilterChange b val)" if "0 < planetsPerPage b"
    using that by (simp add: page_reset_in_range typeFilterChange_fields)
  show "page_in_range (planetsPerPageChange b n)" if "0 < n"
    using that by (simp add: page_reset_in_range planetsPerPageChange_fields)
  show "page_in_range (nextPageClick b)" if "0 < planetsPerPage b \<and> page_in_range b"
    using that by (simp add: nextPageClick_in_range)
  show "page_in_range (prevPageClick b)" if "0 < planetsPerPage b \<and> page_in_range b"
    using that by (simp add: prevPageClick_in_range)
  show "page_in_range (foldl browser_step (populatePlanetSelect ps) es)"
    if "list_all offered_size es"
  proof -
    have "0 < planetsPerPage (populatePlanetSelect ps)"
      by (simp add: populatePlanetSelect_def)
    moreover from this have "page_in_range (populatePlanetSelect ps)"
      by (rule page_reset_in_range[rotated]) (simp add: populatePlanetSelect_def)
    ultimately show ?thesis using that by (simp add: browser_run_in_range)
  qed
qed

text \<open>
  C9 on 25 planets with 10 per page at the last page, index 2: re-filtering to an empty
  set and changing the page size to 100 both give index 0.
\<close>

theorem C9_pagination_witness:
  "0 < planetsPerPage last_page_browser \<and> page_in_range last_page_browser \<and>
   currentPage last_page_browser = 2 \<and>
   page_in_range (nextPageClick last_page_browser) \<and>
   page_in_range (prevPageClick last_page_browser) \<and>
   filteredPlanets (typeFilterChange last_page_browser ''Terrestrial'') = [] \<and>
   currentPage (typeFilterChange last_page_browser ''Terrestrial'') = 0 \<and>
   page_in_range (typeFilterChange last_page_browser ''Terrestrial'') \<and>
   (0::int) < 100 \<and>
   currentPage (planetsPerPageChange last_page_browser 100) = 0 \<and>
   page_in_range (planetsPerPageChange last_page_browser 100) \<and>
   list_all offered_size [PerPage 50, NextPage, TypeFilter ''Gas Giant''] \<and>
   page_in_range (foldl browser_step (populatePlanetSelect (replicate 25 far_planet))
     [PerPage 50, NextPage, TypeFilter ''Gas Giant''])"
proof -
  have m: "maxPages last_page_browser = 3"
    by (simp add: maxPages_def last_page_browser_def)
  have h: "0 < planetsPerPage last_page_browser \<and> page_in_range last_page_browser"
    by (simp add: page_in_range_def m) (simp add: last_page_browser_def)
  have c: "currentPage last_page_browser = 2" by (simp add: last_page_browser_def)
  have f: "filteredPlanets (typeFilterChange last_page_browser ''Terrestrial'') = []"
    by (simp add: typeFilterChange_def applyFilter_def last_page_browser_def far_planet_def)
  have n: "(0::int) < 100" by simp
  have l: "list_all offered_size [PerPage 50, NextPage, TypeFilter ''Gas Giant'']" by simp
  note t = C9_pagination[of last_page_browser "''Terrestrial''" 100
      "[PerPage 50, NextPage, TypeFilter ''Gas Giant'']" "replicate 25 far_planet"]
  from h c f n l t show ?thesis by blast
qed

end
